theory Spec2Isabelle
  imports Complex_Main "HOL-Library.AList" "HOL-Library.Log_Nat"
begin

section \<open>JavaScript values\<close>

text \<open>
  The table code is untyped at run time: \<open>resolveCell\<close> builds plain objects and
  \<open>getCellValue\<close> reads them back by property name. Values are therefore modelled as
  one datatype of JavaScript values. An object is the list of its own properties in
  insertion order; an array is the list of its elements.

  Numbers are payload only: a cell carries them, and the two places where the language
  looks inside a number are its truthiness (\<open>ToBoolean\<close>) and its rendering as text
  (\<open>Number::toString\<close>, used by \<open>Array.prototype.join\<close>). Both are taken as
  parameters, so that every theorem holds for IEEE doubles, whatever their rendering.
\<close>

datatype 'n jsval =
    JUndefined
  | JNull
  | JBool bool
  | JNum 'n
  | JStr string
  | JArr "'n jsval list"
  | JObj "(string \<times> 'n jsval) list"

type_synonym 'n obj = "(string \<times> 'n jsval) list"

record 'n number_prims =
  numToBoolean :: "'n \<Rightarrow> bool"
  numToString :: "'n \<Rightarrow> string"

text \<open>A thrown exception is a value: the implicit \<open>TypeError\<close> of a property read on
  \<open>null\<close> or \<open>undefined\<close>, and \<open>new Error(message)\<close>.\<close>

datatype error = TypeError | Error string

text \<open>\<open>console.warn\<close> appends to a log. A warning is its fixed text together with the
  value whose \<open>JSON.stringify\<close> rendering the source appends to it.\<close>

datatype 'n diagnostic = Warn string "'n jsval"

subsection \<open>Language primitives\<close>

fun typeof :: "'n jsval \<Rightarrow> string" where
  "typeof JUndefined = ''undefined''"
| "typeof JNull = ''object''"
| "typeof (JBool b) = ''boolean''"
| "typeof (JNum n) = ''number''"
| "typeof (JStr s) = ''string''"
| "typeof (JArr xs) = ''object''"
| "typeof (JObj kvs) = ''object''"

text \<open>\<open>ToBoolean\<close>: the value of a condition.\<close>

fun truthy :: "'n number_prims \<Rightarrow> 'n jsval \<Rightarrow> bool" where
  "truthy N JUndefined = False"
| "truthy N JNull = False"
| "truthy N (JBool b) = b"
| "truthy N (JNum n) = numToBoolean N n"
| "truthy N (JStr s) = (s \<noteq> [])"
| "truthy N (JArr xs) = True"
| "truthy N (JObj kvs) = True"

text \<open>
  \<open>String.prototype.toUpperCase\<close> on the ASCII letters. A \<open>char\<close> is a byte, so a
  character outside ASCII is left as it is. That is enough for the comparison with the
  NA strings below: no character outside ASCII has \<open>N\<close>, \<open>A\<close>, \<open>U\<close>, \<open>L\<close>, \<open>/\<close> or
  \<open>.\<close> alone as its upper case.
\<close>

definition toUpperChar :: "char \<Rightarrow> char" where
  "toUpperChar c =
     (case map_of (zip ''abcdefghijklmnopqrstuvwxyz'' ''ABCDEFGHIJKLMNOPQRSTUVWXYZ'') c of
        None \<Rightarrow> c
      | Some u \<Rightarrow> u)"

definition toUpperCase :: "string \<Rightarrow> string" where
  "toUpperCase s = map toUpperChar s"

text \<open>
  \<open>Array.prototype.join\<close>: \<open>undefined\<close> and \<open>null\<close> elements give the empty string,
  every other element its \<open>ToString\<close>; a nested array is joined with a comma and a plain
  object renders as \<open>[object Object]\<close>.
\<close>

fun elemToString :: "'n number_prims \<Rightarrow> 'n jsval \<Rightarrow> string"
  and join :: "'n number_prims \<Rightarrow> string \<Rightarrow> 'n jsval list \<Rightarrow> string"
where
  "elemToString N JUndefined = ''''"
| "elemToString N JNull = ''''"
| "elemToString N (JBool b) = (if b then ''true'' else ''false'')"
| "elemToString N (JNum n) = numToString N n"
| "elemToString N (JStr s) = s"
| "elemToString N (JArr xs) = join N '','' xs"
| "elemToString N (JObj kvs) = ''[object Object]''"
| "join N sep [] = ''''"
| "join N sep [x] = elemToString N x"
| "join N sep (x # y # ys) = elemToString N x @ sep @ join N sep (y # ys)"

text \<open>A property read \<open>props.key\<close>: \<open>undefined\<close> when the object has no such property.\<close>

definition getProp :: "string \<Rightarrow> 'n obj \<Rightarrow> 'n jsval" where
  "getProp key props = (case map_of props key of None \<Rightarrow> JUndefined | Some v \<Rightarrow> v)"

text \<open>\<open>Object.assign(target, source)\<close>: each own property of the source, in order, is
  written to the target; a key the target has keeps its place and takes the new value, a
  new key goes to the end.\<close>

definition Object_assign :: "'n obj \<Rightarrow> 'n obj \<Rightarrow> 'n obj" where
  "Object_assign target source = fold (\<lambda>(k, v). AList.update k v) source target"

subsection \<open>Helpers of \<open>@common/utils\<close>\<close>

text \<open>
  The source imports \<open>_isJSON\<close>, \<open>_deepCopy\<close>, \<open>_hasOwnProperty\<close> and \<open>_get\<close> from a
  module that is not part of the sources at hand. An Isabelle name cannot start with an
  underscore, so the leading underscores of the source's names are dropped, here and for
  \<open>__isNull\<close>, \<open>__resolveValue\<close>, \<open>__resolveBooleanValue\<close> and
  \<open>__generatePageSizeOptions\<close>.
\<close>

text \<open>Modelled from the spec: \<open>_isJSON\<close> is missing from the sources. The value
  classifier determines whether a raw value is structured (a non-null object, not a
  primitive) or a scalar.\<close>

fun isJSON :: "'n jsval \<Rightarrow> bool" where
  "isJSON (JObj kvs) = True"
| "isJSON (JArr xs) = True"
| "isJSON v = False"

text \<open>Modelled from the spec: \<open>_deepCopy\<close> is missing from the sources. A structured
  value is deep-copied into the cell record, with no aliasing of the caller's data. Values
  are immutable here, so the copy is the value.\<close>

definition deepCopy :: "'n jsval \<Rightarrow> 'n jsval" where
  "deepCopy v = v"

text \<open>Modelled from the spec: \<open>_hasOwnProperty\<close> is missing from the sources. The
  accessor substitutes the cell's declared \<open>naString\<close> if present: the test is whether
  the object has the property.\<close>

definition hasOwnProperty :: "string \<Rightarrow> 'n obj \<Rightarrow> bool" where
  "hasOwnProperty key props = (map_of props key \<noteq> None)"

text \<open>Modelled from the spec: \<open>_get\<close> is missing from the sources. For a value that is
  not null the accessor returns the raw value unchanged: the helper reads the property.\<close>

definition get :: "string \<Rightarrow> 'n obj \<Rightarrow> 'n jsval" where
  "get key props = getProp key props"

section \<open>Cells (\<open>components/Table/Cell.tsx\<close>)\<close>

definition NA_STRINGS :: "string list" where
  "NA_STRINGS = [''NA'', ''N/A'', ''NULL'', ''.'', '''']"

definition DEFAULT_NA_STRING :: string where
  "DEFAULT_NA_STRING = ''NA''"

definition CELL_TYPE_VALIDATION_REFERENCE :: "string list" where
  "CELL_TYPE_VALIDATION_REFERENCE =
     [''boolean'', ''abstract'', ''float'', ''text'', ''annotated_text'', ''badge'', ''link'',
      ''percentage_bar'']"

text \<open>\<open>validateCellType\<close>: the argument has type \<open>string | undefined\<close>; \<open>None\<close> is
  \<open>undefined\<close>. The \<open>throw\<close> is the \<open>Inl\<close> branch, carrying the message.\<close>

definition validateCellType :: "string option \<Rightarrow> error + string" where
  "validateCellType ctype =
     (case ctype of
        None \<Rightarrow> Inr ''abstract''
      | Some c \<Rightarrow>
          if c \<in> set CELL_TYPE_VALIDATION_REFERENCE then Inr c
          else Inl (Error (''Invalid data type `'' @ c @ ''`'')))"

text \<open>\<open>__isNull\<close>: the first test is guarded by the truthiness of the value, as in the
  source; \<open>toUpperCase\<close> is reached by strings only.\<close>

definition isNull :: "'n number_prims \<Rightarrow> 'n jsval \<Rightarrow> bool" where
  "isNull N v =
     (if truthy N v \<and> typeof v = ''string'' \<and>
         (case v of JStr s \<Rightarrow> toUpperCase s \<in> set NA_STRINGS | _ \<Rightarrow> False)
      then True
      else v = JNull \<or> v = JUndefined)"

text \<open>\<open>__resolveValue\<close>\<close>

definition resolveValue :: "'n number_prims \<Rightarrow> 'n obj \<Rightarrow> 'n jsval" where
  "resolveValue N props =
     (let naString =
            (if hasOwnProperty ''naString'' props then getProp ''naString'' props
             else JStr DEFAULT_NA_STRING)
      in if isNull N (getProp ''value'' props) then naString else get ''value'' props)"

text \<open>\<open>__resolveBooleanValue\<close>\<close>

definition resolveBooleanValue :: "'n number_prims \<Rightarrow> 'n obj \<Rightarrow> 'n jsval" where
  "resolveBooleanValue N props =
     (if isNull N (getProp ''value'' props) then
        (if truthy N (getProp ''nullAsFalse'' props) then
           (if getProp ''falseStr'' props \<noteq> JUndefined then getProp ''falseStr'' props
            else JStr ''FALSE'')
         else resolveValue N props)
      else
        (if getProp ''value'' props = JBool True then
           (if getProp ''trueStr'' props \<noteq> JUndefined then getProp ''trueStr'' props
            else JStr ''TRUE'')
         else
           (if getProp ''falseStr'' props \<noteq> JUndefined then getProp ''falseStr'' props
            else JStr ''FALSE'')))"

text \<open>
  \<open>getCellValue\<close>. An array is mapped element by element, the first exception ending the
  call, and the values are joined. Otherwise \<open>cellProps.type\<close> is read: on \<open>null\<close> and
  \<open>undefined\<close> that read throws; a primitive has none of the properties the accessor
  reads, so it behaves as the object without properties.
\<close>

fun getCellValue :: "'n number_prims \<Rightarrow> 'n jsval \<Rightarrow> error + 'n jsval"
  and getCellValues :: "'n number_prims \<Rightarrow> 'n jsval list \<Rightarrow> error + 'n jsval list"
where
  "getCellValue N (JArr cellProps) =
     (case getCellValues N cellProps of
        Inl e \<Rightarrow> Inl e
      | Inr vs \<Rightarrow> Inr (JStr (join N '' // '' vs)))"
| "getCellValue N (JObj props) =
     (if getProp ''type'' props = JStr ''boolean'' then Inr (resolveBooleanValue N props)
      else Inr (resolveValue N props))"
| "getCellValue N JNull = Inl TypeError"
| "getCellValue N JUndefined = Inl TypeError"
| "getCellValue N (JBool b) = Inr (resolveValue N [])"
| "getCellValue N (JNum n) = Inr (resolveValue N [])"
| "getCellValue N (JStr s) = Inr (resolveValue N [])"
| "getCellValues N [] = Inr []"
| "getCellValues N (item # items) =
     (case getCellValue N item of
        Inl e \<Rightarrow> Inl e
      | Inr v \<Rightarrow>
          (case getCellValues N items of
             Inl e \<Rightarrow> Inl e
           | Inr vs \<Rightarrow> Inr (v # vs)))"

text \<open>
  \<open>resolveCell\<close> returns the resolved cell and the warnings it logged, in order. The
  declared type has type \<open>CellType | undefined\<close>; \<open>None\<close> is \<open>undefined\<close>.
\<close>

definition structuredWarning :: string where
  "structuredWarning =
     ''`type` must be specified in the column defintion to correctly interpret structured values; assuming `text` cell: ''"

fun resolveCell :: "'n jsval \<Rightarrow> string option \<Rightarrow> 'n jsval \<times> 'n diagnostic list" where
  "resolveCell (JArr cell) cellType =
     (let rs = map (\<lambda>c. resolveCell c cellType) cell
      in (JArr (map fst rs), concat (map snd rs)))"
| "resolveCell cell cellType =
     (let resolvedCellType = (case cellType of None \<Rightarrow> ''abstract'' | Some t \<Rightarrow> t)
      in if isJSON cell then
           (let (resolvedCellType, warnings) =
                  (if resolvedCellType = ''abstract''
                   then (''text'', [Warn structuredWarning cell])
                   else (resolvedCellType, []));
                resolvedCell = (case deepCopy cell of JObj kvs \<Rightarrow> kvs | _ \<Rightarrow> [])
            in (JObj (Object_assign [(''type'', JStr resolvedCellType)] resolvedCell),
                warnings))
         else
           (let resolvedCell = Object_assign [(''value'', cell)] []
            in (JObj (Object_assign [(''type'', JStr resolvedCellType)] resolvedCell), [])))"

section \<open>Pagination (\<open>components/Table/PaginationControls.tsx\<close>)\<close>

text \<open>
  The row count is the length of an array: it is modelled as \<open>int\<close>, on which the
  arithmetic of the page-size options is exact.
  \<open>Math.ceil(nRows / 10) * 10\<close> divides as a real number and rounds up.
\<close>

definition nearestTenth :: "int \<Rightarrow> int" where
  "nearestTenth nRows = \<lceil>real_of_int nRows / 10\<rceil> * 10"

text \<open>\<open>range(start, end, step)\<close> of lodash: the numbers from \<open>start\<close> in steps of
  \<open>step\<close>, up to but not including \<open>end\<close>; its length is
  \<open>max(ceil((end - start) / (step || 1)), 0)\<close>.\<close>

definition range_lodash :: "int \<Rightarrow> int \<Rightarrow> int \<Rightarrow> int list" where
  "range_lodash start end step =
     (let length = max \<lceil>real_of_int (end - start) / real_of_int (if step = 0 then 1 else step)\<rceil> 0
      in map (\<lambda>i. start + int i * step) [0..<nat length])"

text \<open>\<open>__generatePageSizeOptions\<close>\<close>

definition generatePageSizeOptions :: "int \<Rightarrow> int list" where
  "generatePageSizeOptions nRows =
     (if nearestTenth nRows \<ge> 500 then [10, 20, 30, 40, 50, 100, 500]
      else if nearestTenth nRows \<ge> 100 then [10, 20, 30, 40, 50, 100]
      else if nearestTenth nRows \<ge> 50 then [10, 20, 30, 40, 50, nRows]
      else if nearestTenth nRows \<ge> 10 \<and> nRows \<ge> 10 then
        range_lodash 10 (nearestTenth nRows + 10) 10 @ [nRows]
      else [nRows])"

text \<open>
  The displayed row range of \<open>PaginationControls\<close> (\<open>minDisplayedRow\<close> and
  \<open>maxDisplayedRow\<close>) is computed on numbers of the language, which are IEEE doubles.
  The page index, the page size and the row count are integers held in doubles. A product
  or sum of such integers is the exact result rounded to the nearest double, a tie going
  to the even significand; a result of magnitude \<open>2^1024\<close> or more is an infinity. An
  integer below \<open>2^53\<close> in magnitude is a double; above, with \<open>e\<close> the number of bits
  beyond 53, the doubles are the multiples of \<open>2^e\<close>.
\<close>

datatype number = Finite int | PosInfinity | NegInfinity

definition roundToDouble :: "int \<Rightarrow> number" where
  "roundToDouble x =
     (if \<bar>x\<bar> < 2 ^ 53 then Finite x
      else
        (let e = nat (bitlen \<bar>x\<bar> - 53);
             q = \<bar>x\<bar> div 2 ^ e;
             r = \<bar>x\<bar> mod 2 ^ e;
             half = 2 ^ (e - 1);
             m = (if r < half \<or> (r = half \<and> even q) then q else q + 1) * 2 ^ e
         in if 2 ^ 1024 \<le> m then (if x < 0 then NegInfinity else PosInfinity)
            else Finite (sgn x * m)))"

text \<open>The product of two integers, and the sum of a number and an integer: the second
  operand of every sum of the source is finite (\<open>1\<close>, the page size, \<open>-1\<close>).\<close>

definition numTimes :: "int \<Rightarrow> int \<Rightarrow> number" where
  "numTimes a b = roundToDouble (a * b)"

fun numPlus :: "number \<Rightarrow> int \<Rightarrow> number" where
  "numPlus (Finite a) b = roundToDouble (a + b)"
| "numPlus PosInfinity b = PosInfinity"
| "numPlus NegInfinity b = NegInfinity"

fun numGreater :: "number \<Rightarrow> int \<Rightarrow> bool" where
  "numGreater (Finite a) b = (a > b)"
| "numGreater PosInfinity b = True"
| "numGreater NegInfinity b = False"

definition displayedRows :: "int \<Rightarrow> int \<Rightarrow> int \<Rightarrow> number \<times> number" where
  "displayedRows pageIndex pageSize nRows =
     (let minDisplayedRow = numPlus (numTimes pageIndex pageSize) 1;
          maxDisplayedRow = numPlus (numPlus minDisplayedRow pageSize) (- 1);
          maxDisplayedRow =
            (if numGreater maxDisplayedRow nRows then Finite nRows else maxDisplayedRow)
      in (minDisplayedRow, maxDisplayedRow))"

section \<open>Facts about the language primitives and the helpers\<close>

lemma isNull_iff:
  "isNull N v \<longleftrightarrow>
     v = JNull \<or> v = JUndefined \<or> (\<exists>s. v = JStr s \<and> s \<noteq> [] \<and> toUpperCase s \<in> set NA_STRINGS)"
  by (cases v) (auto simp: isNull_def)

text \<open>After \<open>Object.assign\<close>, a key reads as the source's last value for it, and as the
  target's value when the source does not have the key.\<close>

lemma map_of_Object_assign:
  "map_of (Object_assign target source) key =
     (case map_of (rev source) key of None \<Rightarrow> map_of target key | Some v \<Rightarrow> Some v)"
  unfolding Object_assign_def
proof (induction source arbitrary: target)
  case Nil
  then show ?case by simp
next
  case (Cons p source)
  obtain k v where p: "p = (k, v)" by (cases p)
  show ?case
    by (simp add: Cons.IH p update_conv' map_add_def split: option.splits)
qed

lemma resolveCell_scalar:
  assumes "\<not> isJSON v"
  shows "resolveCell v (Some t) = (JObj [(''type'', JStr t), (''value'', v)], [])"
  using assms by (cases v) (simp_all add: Object_assign_def)

lemma getCellValue_text_cell:
  assumes "\<not> isNull N v"
  shows "getCellValue N (JObj [(''type'', JStr ''text''), (''value'', v)]) = Inr v"
  using assms by (simp add: resolveValue_def getProp_def get_def Let_def)

text \<open>A structured value without a \<open>type\<close> property of its own, resolved with no declared
  type: the cell reads as a \<open>text\<close> cell and the warning is logged.\<close>

lemma resolveCell_structured_untyped:
  assumes "map_of kvs ''type'' = None"
  shows "\<exists>props. resolveCell (JObj kvs) None = (JObj props, [Warn structuredWarning (JObj kvs)]) \<and>
           getProp ''type'' props = JStr ''text''"
proof -
  have "''type'' \<notin> fst ` set kvs"
    using assms by (simp add: map_of_eq_None_iff)
  then have "map_of (rev kvs) ''type'' = None"
    by (simp add: map_of_eq_None_iff)
  then have "getProp ''type'' (Object_assign [(''type'', JStr ''text'')] kvs) = JStr ''text''"
    by (simp add: getProp_def map_of_Object_assign)
  then show ?thesis
    by (simp add: deepCopy_def)
qed

lemma getCellValues_iff:
  "getCellValues N cells = Inr vs \<longleftrightarrow> list_all2 (\<lambda>c v. getCellValue N c = Inr v) cells vs"
proof (induction cells arbitrary: vs)
  case Nil
  then show ?case by auto
next
  case (Cons c cells)
  show ?case
    by (cases vs) (auto simp: Cons.IH [symmetric] split: sum.splits)
qed

lemma getCellValues_objects:
  assumes "\<forall>c \<in> set cells. \<exists>props. c = JObj props"
  shows "\<exists>vs. getCellValues N cells = Inr vs"
  using assms
proof (induction cells)
  case Nil
  then show ?case by simp
next
  case (Cons c cells)
  then obtain props vs where "c = JObj props" and "getCellValues N cells = Inr vs"
    by auto
  then show ?case by simp
qed

section \<open>Cells: resolving and reading back\<close>

text \<open>
  C1. For every scalar value \<open>v\<close> (a string, a number or a boolean, so neither \<open>null\<close> nor
  \<open>undefined\<close>) that, when it is a string, is not one of the NA strings whatever its
  letter case, resolving it with the declared type \<open>text\<close> and reading the cell back with
  the value accessor returns \<open>v\<close> unchanged.
\<close>

theorem resolve_text_then_access:
  assumes "typeof v \<in> {''string'', ''number'', ''boolean''}"
    and "\<forall>s. v = JStr s \<longrightarrow> toUpperCase s \<notin> {''NA'', ''N/A'', ''NULL'', ''.'', ''''}"
  shows "getCellValue N (fst (resolveCell v (Some ''text''))) = Inr v"
proof -
  from assms(1) have scalar: "\<not> isJSON v"
    by (cases v) simp_all
  from assms have "\<not> isNull N v"
    by (cases v) (simp_all add: isNull_iff NA_STRINGS_def)
  then have "getCellValue N (JObj [(''type'', JStr ''text''), (''value'', v)]) = Inr v"
    by (rule getCellValue_text_cell)
  then show ?thesis
    using resolveCell_scalar [OF scalar, of "''text''"] by (simp only: fst_conv)
qed

theorem resolve_text_then_access_witness:
  "typeof (JStr ''rs429358'' :: int jsval) \<in> {''string'', ''number'', ''boolean''} \<and>
   toUpperCase ''rs429358'' \<notin> {''NA'', ''N/A'', ''NULL'', ''.'', ''''} \<and>
   getCellValue \<lparr>numToBoolean = (\<lambda>n::int. n \<noteq> 0), numToString = (\<lambda>n. ''0'')\<rparr>
     (fst (resolveCell (JStr ''rs429358'') (Some ''text''))) = Inr (JStr ''rs429358'')"
proof -
  have h: "toUpperCase ''rs429358'' \<notin> {''NA'', ''N/A'', ''NULL'', ''.'', ''''}"
    by (simp add: toUpperCase_def toUpperChar_def)
  then show ?thesis
    using resolve_text_then_access
      [of "JStr ''rs429358''" "\<lparr>numToBoolean = (\<lambda>n::int. n \<noteq> 0), numToString = (\<lambda>n. ''0'')\<rparr>"]
    by simp
qed

text \<open>
  C2. The claim counts the empty string among the values the accessor takes for null, and
  the list of NA strings holds it. The accessor does not: the NA test is guarded by the
  truthiness of the value, and the empty string is falsy. A \<open>text\<close> cell whose value is the
  empty string reads back as the empty string, not as the \<open>NA\<close> default, both when the cell
  is given as it is and when it comes from resolving the empty string.
\<close>

theorem empty_string_not_null:
  "'''' \<in> set NA_STRINGS \<and>
   \<not> isNull N (JStr '''') \<and>
   getCellValue N (JObj [(''type'', JStr ''text''), (''value'', JStr '''')]) = Inr (JStr '''') \<and>
   getCellValue N (fst (resolveCell (JStr '''') (Some ''text''))) = Inr (JStr '''')"
proof -
  have sentinel: "[] \<in> set NA_STRINGS"
    by (simp add: NA_STRINGS_def)
  have not_null: "\<not> isNull N (JStr [])"
    by (simp add: isNull_iff)
  have direct:
    "getCellValue N (JObj [(''type'', JStr ''text''), (''value'', JStr [])]) = Inr (JStr [])"
    using not_null by (rule getCellValue_text_cell)
  have resolved: "resolveCell (JStr []) (Some ''text'') =
          (JObj [(''type'', JStr ''text''), (''value'', JStr [])], [])"
    by (rule resolveCell_scalar) simp
  have "getCellValue N (fst (resolveCell (JStr []) (Some ''text''))) = Inr (JStr [])"
    unfolding resolved fst_conv by (rule direct)
  then show ?thesis
    using sentinel not_null direct by blast
qed

text \<open>
  C3. \<open>validateCellType\<close> returns \<open>abstract\<close> for \<open>undefined\<close>, returns a string of the
  cell-type vocabulary (boolean, abstract, float, text, annotated_text, badge, link,
  percentage_bar) unchanged, and for every other string throws an error whose message
  holds that string between backquotes.
\<close>

theorem validateCellType_cases:
  "validateCellType None = Inr ''abstract'' \<and>
   (ctype \<in> {''boolean'', ''abstract'', ''float'', ''text'', ''annotated_text'', ''badge'',
              ''link'', ''percentage_bar''}
      \<longrightarrow> validateCellType (Some ctype) = Inr ctype) \<and>
   (ctype \<notin> {''boolean'', ''abstract'', ''float'', ''text'', ''annotated_text'', ''badge'',
              ''link'', ''percentage_bar''}
      \<longrightarrow> validateCellType (Some ctype) =
            Inl (Error (''Invalid data type `'' @ ctype @ ''`'')))"
  by (simp add: validateCellType_def CELL_TYPE_VALIDATION_REFERENCE_def)

theorem validateCellType_cases_witness:
  "validateCellType None = Inr ''abstract'' \<and>
   ''badge'' \<in> {''boolean'', ''abstract'', ''float'', ''text'', ''annotated_text'', ''badge'',
              ''link'', ''percentage_bar''} \<and>
   validateCellType (Some ''badge'') = Inr ''badge'' \<and>
   ''bogus'' \<notin> {''boolean'', ''abstract'', ''float'', ''text'', ''annotated_text'', ''badge'',
              ''link'', ''percentage_bar''} \<and>
   validateCellType (Some ''bogus'') = Inl (Error ''Invalid data type `bogus`'')"
  using validateCellType_cases [of "''badge''"] validateCellType_cases [of "''bogus''"]
  by simp

text \<open>
  C4. The claim is that a structured value is never resolved to an \<open>abstract\<close> cell: with no
  declared type the cell's type is \<open>text\<close> and a warning is logged. The type is merged as
  \<open>Object.assign({type}, copy)\<close>, so a \<open>type\<close> property of the value itself overwrites it:
  the object \<open>{type: "abstract", value: "x"}\<close>, resolved with no declared type or with
  the declared type \<open>abstract\<close>, logs the warning that a \<open>text\<close> cell is assumed and
  comes back with the type \<open>abstract\<close>.
\<close>

theorem structured_own_type_wins:
  "resolveCell (JObj [(''type'', JStr ''abstract''), (''value'', JStr ''x'')]) None =
     (JObj [(''type'', JStr ''abstract''), (''value'', JStr ''x'')],
      [Warn structuredWarning (JObj [(''type'', JStr ''abstract''), (''value'', JStr ''x'')])]) \<and>
   resolveCell (JObj [(''type'', JStr ''abstract''), (''value'', JStr ''x'')]) (Some ''abstract'') =
     (JObj [(''type'', JStr ''abstract''), (''value'', JStr ''x'')],
      [Warn structuredWarning (JObj [(''type'', JStr ''abstract''), (''value'', JStr ''x'')])])"
  by (simp add: Object_assign_def deepCopy_def Let_def)

text \<open>
  C5. For every boolean cell: when the value is null and \<open>nullAsFalse\<close> is set, the
  accessor returns \<open>falseStr\<close>, or \<open>FALSE\<close> when \<open>falseStr\<close> is absent; when the value is
  null and \<open>nullAsFalse\<close> is unset, it returns the cell's \<open>naString\<close> when present and
  \<open>NA\<close> otherwise; when the value is \<open>true\<close> it returns \<open>trueStr\<close>, or \<open>TRUE\<close> when
  absent; for any other value that is not null it returns \<open>falseStr\<close>, or \<open>FALSE\<close> when
  absent. The null literal and \<open>undefined\<close> are null, a boolean is not.
\<close>

theorem boolean_cell_value:
  assumes "getProp ''type'' props = JStr ''boolean''"
  shows
    "(isNull N (getProp ''value'' props) \<and> truthy N (getProp ''nullAsFalse'' props) \<longrightarrow>
        getCellValue N (JObj props) =
          Inr (if getProp ''falseStr'' props = JUndefined then JStr ''FALSE''
               else getProp ''falseStr'' props)) \<and>
     (isNull N (getProp ''value'' props) \<and> \<not> truthy N (getProp ''nullAsFalse'' props) \<longrightarrow>
        getCellValue N (JObj props) =
          Inr (if hasOwnProperty ''naString'' props then getProp ''naString'' props
               else JStr ''NA'')) \<and>
     (getProp ''value'' props = JBool True \<longrightarrow>
        getCellValue N (JObj props) =
          Inr (if getProp ''trueStr'' props = JUndefined then JStr ''TRUE''
               else getProp ''trueStr'' props)) \<and>
     (\<not> isNull N (getProp ''value'' props) \<and> getProp ''value'' props \<noteq> JBool True \<longrightarrow>
        getCellValue N (JObj props) =
          Inr (if getProp ''falseStr'' props = JUndefined then JStr ''FALSE''
               else getProp ''falseStr'' props)) \<and>
     isNull N JNull \<and> isNull N JUndefined \<and> \<not> isNull N (JBool b)"
proof -
  have call: "getCellValue N (JObj props) = Inr (resolveBooleanValue N props)"
    using assms by simp
  have nulls: "isNull N JNull \<and> isNull N JUndefined \<and> \<not> isNull N (JBool b)"
    by (simp add: isNull_iff)
  have true_not_null: "\<not> isNull N (JBool True)"
    by (simp add: isNull_iff)
  show ?thesis
    unfolding call
    using nulls true_not_null
    by (auto simp: resolveBooleanValue_def resolveValue_def DEFAULT_NA_STRING_def)
qed

theorem boolean_cell_value_witness:
  "getProp ''type'' [(''type'', JStr ''boolean''), (''value'', JNull), (''nullAsFalse'', JBool True),
      (''falseStr'', JStr ''No'')] = (JStr ''boolean'' :: int jsval) \<and>
   getCellValue \<lparr>numToBoolean = (\<lambda>n::int. n \<noteq> 0), numToString = (\<lambda>n. ''0'')\<rparr>
     (JObj [(''type'', JStr ''boolean''), (''value'', JNull), (''nullAsFalse'', JBool True),
            (''falseStr'', JStr ''No'')]) = Inr (JStr ''No'') \<and>
   getCellValue \<lparr>numToBoolean = (\<lambda>n::int. n \<noteq> 0), numToString = (\<lambda>n. ''0'')\<rparr>
     (JObj [(''type'', JStr ''boolean''), (''value'', JBool True), (''trueStr'', JStr ''Yes''),
            (''nullAsFalse'', JBool False)]) = Inr (JStr ''Yes'')"
  using
    boolean_cell_value
      [of "[(''type'', JStr ''boolean''), (''value'', JNull), (''nullAsFalse'', JBool True),
            (''falseStr'', JStr ''No'')]"
          "\<lparr>numToBoolean = (\<lambda>n::int. n \<noteq> 0), numToString = (\<lambda>n. ''0'')\<rparr>"]
    boolean_cell_value
      [of "[(''type'', JStr ''boolean''), (''value'', JBool True), (''trueStr'', JStr ''Yes''),
            (''nullAsFalse'', JBool False)]"
          "\<lparr>numToBoolean = (\<lambda>n::int. n \<noteq> 0), numToString = (\<lambda>n. ''0'')\<rparr>"]
  by (simp add: getProp_def isNull_iff del: getCellValue.simps)

text \<open>
  Joining, stated without the recursion of \<open>join\<close>: every element's text is put after
  the separator, the pieces are concatenated in order, and the separator in front of the
  first piece is dropped.
\<close>

lemma join_concat:
  "join N sep vs = drop (length sep) (concat (map (\<lambda>v. sep @ elemToString N v) vs))"
  by (induction vs rule: induct_list012) simp_all

lemma elemToString_scalar:
  assumes "\<not> isJSON v"
  shows "elemToString N v =
     (case v of
        JStr s \<Rightarrow> s
      | JNum n \<Rightarrow> numToString N n
      | JBool b \<Rightarrow> (if b then ''true'' else ''false'')
      | _ \<Rightarrow> '''')"
  using assms by (cases v) simp_all

text \<open>
  C6. For an array of cells, the accessor returns the values of the elements, taken with
  the accessor itself and in order, joined with the delimiter \<open>" // "\<close>. It returns for
  every array of cell objects. When the values of the elements are scalars, the result
  is, for an array of any length, the texts of the values in order with \<open>" // "\<close>
  between every two neighbours: a string as it is, a number in its rendering, a boolean
  as \<open>true\<close> or \<open>false\<close>, and \<open>null\<close> or \<open>undefined\<close> as the empty text; for cells
  with string values that is the strings themselves with the delimiter between them. For
  two cells whose values are the strings \<open>valueA\<close> and \<open>valueB\<close> the result is
  \<open>valueA // valueB\<close>.
\<close>

theorem getCellValue_array_join:
  "(list_all2 (\<lambda>c v. getCellValue N c = Inr v) cells vs \<longrightarrow>
      getCellValue N (JArr cells) = Inr (JStr (join N '' // '' vs))) \<and>
   ((\<forall>c \<in> set cells. \<exists>props. c = JObj props) \<longrightarrow>
      (\<exists>vs. list_all2 (\<lambda>c v. getCellValue N c = Inr v) cells vs)) \<and>
   (list_all2 (\<lambda>c v. getCellValue N c = Inr v) cells vs \<and> (\<forall>v \<in> set vs. \<not> isJSON v) \<longrightarrow>
      getCellValue N (JArr cells) =
        Inr (JStr (drop (length '' // '')
          (concat (map (\<lambda>v. '' // '' @
            (case v of
               JStr s \<Rightarrow> s
             | JNum n \<Rightarrow> numToString N n
             | JBool b \<Rightarrow> (if b then ''true'' else ''false'')
             | _ \<Rightarrow> '''')) vs))))) \<and>
   (list_all2 (\<lambda>c s. getCellValue N c = Inr (JStr s)) cells ss \<longrightarrow>
      getCellValue N (JArr cells) =
        Inr (JStr (drop (length '' // '') (concat (map (\<lambda>s. '' // '' @ s) ss))))) \<and>
   (getCellValue N cellA = Inr (JStr valueA) \<and> getCellValue N cellB = Inr (JStr valueB) \<longrightarrow>
      getCellValue N (JArr [cellA, cellB]) = Inr (JStr (valueA @ '' // '' @ valueB)))"
proof (intro conjI impI)
  assume "list_all2 (\<lambda>c v. getCellValue N c = Inr v) cells vs"
  then have "getCellValues N cells = Inr vs"
    by (simp only: getCellValues_iff)
  then show "getCellValue N (JArr cells) = Inr (JStr (join N '' // '' vs))"
    by simp
next
  assume "\<forall>c \<in> set cells. \<exists>props. c = JObj props"
  then show "\<exists>vs. list_all2 (\<lambda>c v. getCellValue N c = Inr v) cells vs"
    using getCellValues_objects [of cells N] by (simp only: getCellValues_iff)
next
  assume a: "list_all2 (\<lambda>c v. getCellValue N c = Inr v) cells vs \<and> (\<forall>v \<in> set vs. \<not> isJSON v)"
  then have "getCellValues N cells = Inr vs"
    by (simp only: getCellValues_iff)
  then have "getCellValue N (JArr cells) = Inr (JStr (join N '' // '' vs))"
    by simp
  moreover have "map (\<lambda>v. '' // '' @ elemToString N v) vs =
      map (\<lambda>v. '' // '' @
            (case v of
               JStr s \<Rightarrow> s
             | JNum n \<Rightarrow> numToString N n
             | JBool b \<Rightarrow> (if b then ''true'' else ''false'')
             | _ \<Rightarrow> '''')) vs"
    using a by (intro map_cong refl) (simp add: elemToString_scalar)
  ultimately show "getCellValue N (JArr cells) =
        Inr (JStr (drop (length '' // '')
          (concat (map (\<lambda>v. '' // '' @
            (case v of
               JStr s \<Rightarrow> s
             | JNum n \<Rightarrow> numToString N n
             | JBool b \<Rightarrow> (if b then ''true'' else ''false'')
             | _ \<Rightarrow> '''')) vs))))"
    by (simp only: join_concat)
next
  assume "list_all2 (\<lambda>c s. getCellValue N c = Inr (JStr s)) cells ss"
  then have "list_all2 (\<lambda>c v. getCellValue N c = Inr v) cells (map JStr ss)"
    by (simp add: list_all2_map2)
  then have "getCellValues N cells = Inr (map JStr ss)"
    by (simp only: getCellValues_iff)
  then have "getCellValue N (JArr cells) = Inr (JStr (join N '' // '' (map JStr ss)))"
    by simp
  then show "getCellValue N (JArr cells) =
        Inr (JStr (drop (length '' // '') (concat (map (\<lambda>s. '' // '' @ s) ss))))"
    by (simp add: join_concat comp_def)
next
  assume "getCellValue N cellA = Inr (JStr valueA) \<and> getCellValue N cellB = Inr (JStr valueB)"
  then show "getCellValue N (JArr [cellA, cellB]) = Inr (JStr (valueA @ '' // '' @ valueB))"
    by simp
qed

theorem getCellValue_array_join_witness:
  "getCellValue \<lparr>numToBoolean = (\<lambda>n::int. n \<noteq> 0), numToString = (\<lambda>n. ''0'')\<rparr>
     (JObj [(''type'', JStr ''text''), (''value'', JStr ''APOE'')]) = Inr (JStr ''APOE'') \<and>
   getCellValue \<lparr>numToBoolean = (\<lambda>n::int. n \<noteq> 0), numToString = (\<lambda>n. ''0'')\<rparr>
     (JObj [(''type'', JStr ''text''), (''value'', JNull)]) = Inr (JStr ''NA'') \<and>
   getCellValue \<lparr>numToBoolean = (\<lambda>n::int. n \<noteq> 0), numToString = (\<lambda>n. ''0'')\<rparr>
     (JObj [(''type'', JStr ''text''), (''value'', JStr ''TOMM40'')]) = Inr (JStr ''TOMM40'') \<and>
   getCellValue \<lparr>numToBoolean = (\<lambda>n::int. n \<noteq> 0), numToString = (\<lambda>n. ''0'')\<rparr>
     (JArr [JObj [(''type'', JStr ''text''), (''value'', JStr ''APOE'')],
            JObj [(''type'', JStr ''text''), (''value'', JNull)]]) = Inr (JStr ''APOE // NA'') \<and>
   getCellValue \<lparr>numToBoolean = (\<lambda>n::int. n \<noteq> 0), numToString = (\<lambda>n. ''0'')\<rparr>
     (JArr [JObj [(''type'', JStr ''text''), (''value'', JStr ''APOE'')],
            JObj [(''type'', JStr ''text''), (''value'', JNull)],
            JObj [(''type'', JStr ''text''), (''value'', JStr ''TOMM40'')]]) =
       Inr (JStr ''APOE // NA // TOMM40'')"
proof -
  let ?N = "\<lparr>numToBoolean = (\<lambda>n::int. n \<noteq> 0), numToString = (\<lambda>n. ''0'')\<rparr>"
  let ?a = "JObj [(''type'', JStr ''text''), (''value'', JStr ''APOE'')] :: int jsval"
  let ?b = "JObj [(''type'', JStr ''text''), (''value'', JNull)] :: int jsval"
  let ?c = "JObj [(''type'', JStr ''text''), (''value'', JStr ''TOMM40'')] :: int jsval"
  have a: "getCellValue ?N ?a = Inr (JStr ''APOE'')"
    by (simp add: resolveValue_def getProp_def get_def hasOwnProperty_def isNull_iff
        toUpperCase_def toUpperChar_def NA_STRINGS_def)
  have b: "getCellValue ?N ?b = Inr (JStr ''NA'')"
    by (simp add: resolveValue_def getProp_def get_def hasOwnProperty_def isNull_iff
        DEFAULT_NA_STRING_def)
  have c: "getCellValue ?N ?c = Inr (JStr ''TOMM40'')"
    by (simp add: resolveValue_def getProp_def get_def hasOwnProperty_def isNull_iff
        toUpperCase_def toUpperChar_def NA_STRINGS_def)
  from a b have two: "getCellValue ?N (JArr [?a, ?b]) = Inr (JStr (''APOE'' @ '' // '' @ ''NA''))"
    using getCellValue_array_join
      [of ?N "[?a, ?b]" "[JStr ''APOE'', JStr ''NA'']" "[''APOE'', ''NA'']"
          ?a "''APOE''" ?b "''NA''"]
    by blast
  from a b c have "list_all2 (\<lambda>c s. getCellValue ?N c = Inr (JStr s)) [?a, ?b, ?c]
      [''APOE'', ''NA'', ''TOMM40'']"
    by (simp only: list_all2_Cons list_all2_Nil simp_thms)
  then have "getCellValue ?N (JArr [?a, ?b, ?c]) =
      Inr (JStr (drop (length '' // '')
        (concat (map (\<lambda>s. '' // '' @ s) [''APOE'', ''NA'', ''TOMM40'']))))"
    using getCellValue_array_join
      [of ?N "[?a, ?b, ?c]" "[JStr ''APOE'', JStr ''NA'', JStr ''TOMM40'']"
          "[''APOE'', ''NA'', ''TOMM40'']" ?a "''APOE''" ?b "''NA''"]
    by blast
  then have three: "getCellValue ?N (JArr [?a, ?b, ?c]) = Inr (JStr ''APOE // NA // TOMM40'')"
    by simp
  from a b c two three show ?thesis
    by (simp del: getCellValue.simps)
qed

text \<open>
  C9. The accessor applied to the empty array returns the empty string: the join of no
  values. It does not throw and does not substitute an NA string.
\<close>

theorem getCellValue_empty_array: "getCellValue N (JArr []) = Inr (JStr '''')"
  by simp

section \<open>Pagination: page sizes and the displayed rows\<close>

lemma ceiling_div_ten: "- (- nRows div 10) = (nRows + 9) div (10::int)"
proof -
  have "- nRows = 10 * (- nRows div 10) + - nRows mod 10"
    by simp
  moreover have "0 \<le> - nRows mod 10" and "- nRows mod 10 < 10"
    by simp_all
  moreover have "nRows + 9 = 10 * ((nRows + 9) div 10) + (nRows + 9) mod 10"
    by simp
  moreover have "0 \<le> (nRows + 9) mod 10" and "(nRows + 9) mod 10 < 10"
    by simp_all
  ultimately show ?thesis
    by linarith
qed

lemma nearestTenth_div: "nearestTenth nRows = (nRows + 9) div 10 * 10"
proof -
  have "\<lceil>real_of_int nRows / real_of_int 10\<rceil> = - (- nRows div 10)"
    by (rule ceiling_divide_eq_div)
  then have "\<lceil>real_of_int nRows / 10\<rceil> = - (- nRows div 10)"
    by simp
  then show ?thesis
    by (simp only: nearestTenth_def ceiling_div_ten)
qed

lemma nearestTenth_bounds:
  "nearestTenth nRows mod 10 = 0 \<and> nRows \<le> nearestTenth nRows \<and>
   nearestTenth nRows < nRows + 10"
  unfolding nearestTenth_div by presburger

lemma range_lodash_tens:
  "range_lodash 10 20 10 = [10]"
  "range_lodash 10 30 10 = [10, 20]"
  "range_lodash 10 40 10 = [10, 20, 30]"
  "range_lodash 10 50 10 = [10, 20, 30, 40]"
  by (simp_all add: range_lodash_def upt_conv_Cons)

lemma tens_upto:
  "map (\<lambda>k. 10 * k) [1..1] = [10::int]"
  "map (\<lambda>k. 10 * k) [1..2] = [10, 20::int]"
  "map (\<lambda>k. 10 * k) [1..3] = [10, 20, 30::int]"
  "map (\<lambda>k. 10 * k) [1..4] = [10, 20, 30, 40::int]"
  by (simp_all add: upto.simps)

lemma nearestTenth_small:
  assumes "10 \<le> nRows" and "nearestTenth nRows < 50"
  shows "nearestTenth nRows \<in> {10, 20, 30, 40}"
  using assms unfolding nearestTenth_div by auto

lemma fourth_tier:
  assumes "10 \<le> nRows" and "nearestTenth nRows < 50"
  shows "range_lodash 10 (nearestTenth nRows + 10) 10 =
         map (\<lambda>k. 10 * k) [1..nearestTenth nRows div 10]"
proof -
  consider "nearestTenth nRows = 10" | "nearestTenth nRows = 20"
    | "nearestTenth nRows = 30" | "nearestTenth nRows = 40"
    using nearestTenth_small [OF assms] by auto
  then show ?thesis
    by cases (simp_all add: range_lodash_tens tens_upto)
qed

lemma options_tens:
  "generatePageSizeOptions 10 = [10, 10]"
  "generatePageSizeOptions 20 = [10, 20, 20]"
  "generatePageSizeOptions 30 = [10, 20, 30, 30]"
  "generatePageSizeOptions 40 = [10, 20, 30, 40, 40]"
  by (simp_all add: generatePageSizeOptions_def nearestTenth_div range_lodash_tens)

text \<open>
  C7. The page-size options follow the tiers of the row count rounded up to the nearest
  ten: from 500 the fixed list up to 500; from 100 the fixed list up to 100; from 50 the
  list 10 to 50 followed by the row count; below that, for a row count of at least 10,
  the multiples of ten up to the rounded row count followed by the exact row count; and
  the single option \<open>nRows\<close> otherwise. The rounded count is the least multiple of ten
  that is not below the row count. 37 rows give 10, 20, 30, 40, 37 and 600 rows give
  10, 20, 30, 40, 50, 100, 500.
\<close>

theorem generatePageSizeOptions_tiers:
  "nearestTenth nRows mod 10 = 0 \<and> nRows \<le> nearestTenth nRows \<and>
   nearestTenth nRows < nRows + 10 \<and>
   generatePageSizeOptions nRows =
     (if 500 \<le> nearestTenth nRows then [10, 20, 30, 40, 50, 100, 500]
      else if 100 \<le> nearestTenth nRows then [10, 20, 30, 40, 50, 100]
      else if 50 \<le> nearestTenth nRows then [10, 20, 30, 40, 50, nRows]
      else if 10 \<le> nRows then map (\<lambda>k. 10 * k) [1..nearestTenth nRows div 10] @ [nRows]
      else [nRows]) \<and>
   generatePageSizeOptions 37 = [10, 20, 30, 40, 37] \<and>
   generatePageSizeOptions 600 = [10, 20, 30, 40, 50, 100, 500]"
proof -
  have tiers: "generatePageSizeOptions nRows =
     (if 500 \<le> nearestTenth nRows then [10, 20, 30, 40, 50, 100, 500]
      else if 100 \<le> nearestTenth nRows then [10, 20, 30, 40, 50, 100]
      else if 50 \<le> nearestTenth nRows then [10, 20, 30, 40, 50, nRows]
      else if 10 \<le> nRows then map (\<lambda>k. 10 * k) [1..nearestTenth nRows div 10] @ [nRows]
      else [nRows])"
  proof (cases "10 \<le> nRows \<and> nearestTenth nRows < 50")
    case True
    then have "range_lodash 10 (nearestTenth nRows + 10) 10 =
               map (\<lambda>k. 10 * k) [1..nearestTenth nRows div 10]"
      using fourth_tier by blast
    moreover have "10 \<le> nearestTenth nRows"
      using True nearestTenth_bounds [of nRows] by linarith
    ultimately show ?thesis
      using True by (simp add: generatePageSizeOptions_def)
  next
    case False
    then show ?thesis
      by (auto simp: generatePageSizeOptions_def)
  qed
  have e37: "generatePageSizeOptions 37 = [10, 20, 30, 40, 37]"
    by (simp add: generatePageSizeOptions_def nearestTenth_div range_lodash_tens)
  have e600: "generatePageSizeOptions 600 = [10, 20, 30, 40, 50, 100, 500]"
    by (simp add: generatePageSizeOptions_def nearestTenth_div)
  show ?thesis
    using nearestTenth_bounds [of nRows] tiers e37 e600 by blast
qed

lemma roundToDouble_safe: "\<bar>x\<bar> < 2 ^ 53 \<Longrightarrow> roundToDouble x = Finite x"
  by (simp add: roundToDouble_def)

text \<open>
  C8. The claim gives the range \<open>pageIndex * pageSize + 1\<close> to that row plus
  \<open>pageSize - 1\<close>, clamped to the row count, for every page index, page size and row
  count, in exact integer arithmetic. The arithmetic is that of doubles, exact only on
  the safe integers: at the page index \<open>2^53\<close> with page size 1 the first displayed row
  is \<open>9007199254740992\<close>, not \<open>9007199254740993\<close>.
\<close>

theorem displayedRows_unsafe_counterexample:
  "displayedRows 9007199254740992 1 3 = (Finite 9007199254740992, Finite 3) \<and>
   displayedRows 9007199254740992 1 3 \<noteq>
     (Finite (9007199254740992 * 1 + 1), Finite (min (9007199254740992 * 1 + 1 + 1 - 1) 3))"
proof -
  have len: "bitlen 9007199254740992 = 54" "bitlen 9007199254740993 = 54"
    by code_simp+
  have product: "roundToDouble 9007199254740992 = Finite 9007199254740992"
    by (simp add: roundToDouble_def len Let_def)
  have up: "roundToDouble 9007199254740993 = Finite 9007199254740992"
    by (simp add: roundToDouble_def len Let_def)
  have "displayedRows 9007199254740992 1 3 = (Finite 9007199254740992, Finite 3)"
    by (simp add: displayedRows_def numTimes_def product up roundToDouble_safe Let_def)
  then show ?thesis
    by simp
qed

text \<open>
  C8, amended. When the product \<open>pageIndex * pageSize\<close>, the first row
  \<open>pageIndex * pageSize + 1\<close>, that row plus the page size, and that sum minus one are
  all safe integers (below \<open>2^53\<close> in magnitude), the displayed range is
  \<open>pageIndex * pageSize + 1\<close> to the minimum of \<open>pageIndex * pageSize + 1 + pageSize - 1\<close>
  and the row count, exactly.
\<close>

theorem displayedRows_clamped:
  assumes "\<bar>pageIndex * pageSize\<bar> < 2 ^ 53"
    and "\<bar>pageIndex * pageSize + 1\<bar> < 2 ^ 53"
    and "\<bar>pageIndex * pageSize + 1 + pageSize\<bar> < 2 ^ 53"
    and "\<bar>pageIndex * pageSize + 1 + pageSize - 1\<bar> < 2 ^ 53"
  shows "displayedRows pageIndex pageSize nRows =
     (Finite (pageIndex * pageSize + 1),
      Finite (min (pageIndex * pageSize + 1 + pageSize - 1) nRows))"
proof -
  have product: "numTimes pageIndex pageSize = Finite (pageIndex * pageSize)"
    unfolding numTimes_def using assms(1) by (rule roundToDouble_safe)
  have first: "numPlus (Finite (pageIndex * pageSize)) 1 = Finite (pageIndex * pageSize + 1)"
    using roundToDouble_safe [OF assms(2)] by simp
  have sum: "numPlus (Finite (pageIndex * pageSize + 1)) pageSize =
             Finite (pageIndex * pageSize + 1 + pageSize)"
    using roundToDouble_safe [OF assms(3)] by simp
  have "\<bar>pageIndex * pageSize + 1 + pageSize + - 1\<bar> < 2 ^ 53"
    using assms(4) by simp
  then have "roundToDouble (pageIndex * pageSize + 1 + pageSize + - 1) =
             Finite (pageIndex * pageSize + 1 + pageSize + - 1)"
    by (rule roundToDouble_safe)
  then have last: "numPlus (Finite (pageIndex * pageSize + 1 + pageSize)) (- 1) =
              Finite (pageIndex * pageSize + 1 + pageSize - 1)"
    by simp
  show ?thesis
    unfolding displayedRows_def Let_def product first sum last
    by (simp add: min_def)
qed

theorem displayedRows_clamped_witness:
  "\<bar>3 * 10 :: int\<bar> < 2 ^ 53 \<and> \<bar>3 * 10 + 1 :: int\<bar> < 2 ^ 53 \<and>
   \<bar>3 * 10 + 1 + 10 :: int\<bar> < 2 ^ 53 \<and> \<bar>3 * 10 + 1 + 10 - 1 :: int\<bar> < 2 ^ 53 \<and>
   displayedRows 3 10 37 = (Finite 31, Finite 37) \<and>
   displayedRows 2 10 37 = (Finite 21, Finite 30)"
  using displayedRows_clamped [of 3 10 37] displayedRows_clamped [of 2 10 37]
  by simp

text \<open>
  C10. For a row count that is a multiple of ten from 10 to 40, the option list holds the
  row count twice: as the last generated multiple of ten and as the appended exact row
  count. 40 rows give 10, 20, 30, 40, 40.
\<close>

theorem generatePageSizeOptions_duplicate:
  assumes "nRows mod 10 = 0" and "10 \<le> nRows" and "nRows \<le> 40"
  shows "generatePageSizeOptions nRows = map (\<lambda>k. 10 * k) [1..nRows div 10] @ [nRows] \<and>
         last (map (\<lambda>k. 10 * k) [1..nRows div 10]) = nRows \<and>
         count_list (generatePageSizeOptions nRows) nRows = 2"
proof -
  from assms have "nRows \<in> {10, 20, 30, 40}"
    by auto
  then consider "nRows = 10" | "nRows = 20" | "nRows = 30" | "nRows = 40"
    by auto
  then show ?thesis
    by cases (simp_all add: options_tens tens_upto)
qed

theorem generatePageSizeOptions_duplicate_witness:
  "(40::int) mod 10 = 0 \<and> (10::int) \<le> 40 \<and> (40::int) \<le> 40 \<and>
   generatePageSizeOptions 40 = [10, 20, 30, 40, 40] \<and>
   count_list (generatePageSizeOptions 40) 40 = 2"
  using generatePageSizeOptions_duplicate [of 40] by (simp add: tens_upto)

end
